theory Spec2Isabelle
  imports Complex_Main "HOL-Library.AList"
begin

section \<open>Social network analyser: shallow embedding\<close>

text \<open>
  The embedding follows \<^verbatim>\<open>main.py\<close> (class \<^verbatim>\<open>SocialNetworkAnalyzer\<close>) and
  \<^verbatim>\<open>content_analyzer.py\<close> (class \<^verbatim>\<open>ContentAnalyzer\<close>).

  Conventions.
  \<^item> Python \<^verbatim>\<open>float\<close> values (scores, ratios, thresholds, weights) are modelled by exact
    rationals: \<^verbatim>\<open>0.8\<close> is \<open>8/10\<close>. Rounding of IEEE doubles is not modelled.
  \<^item> Free text (title, description, category) is a list of Unicode code points, since
    \<^verbatim>\<open>str.lower\<close> and the substring test \<^verbatim>\<open>in\<close> work on code points. Identifiers and
    tags that the code only compares for equality (user ids, content ids, content types,
    interaction types) are \<open>string\<close>.
  \<^item> A Python \<^verbatim>\<open>dict\<close> whose iteration order matters is an association list in insertion
    order; \<open>AList.update\<close> is the assignment \<^verbatim>\<open>d[k] = v\<close> (an existing key keeps its
    position, a new key goes to the end).
  \<^item> \<^verbatim>\<open>datetime.now()\<close> is a reading of the clock that the caller passes in.
\<close>

subsection \<open>Text\<close>

type_synonym pystr = "nat list"

definition ascii :: "string \<Rightarrow> pystr" where
  "ascii s = map of_char s"

text \<open>
  \<^verbatim>\<open>str.lower()\<close> on the code points below 256: the ASCII capitals and the Latin-1 capitals
  (U+00C0 to U+00DE without the multiplication sign U+00D7) move up by 32. Code points from
  256 on are left as they are; Python's case mapping of those is not modelled.
\<close>

definition lower_cp :: "nat \<Rightarrow> nat" where
  "lower_cp c =
     (if 65 \<le> c \<and> c \<le> 90 then c + 32
      else if 192 \<le> c \<and> c \<le> 222 \<and> c \<noteq> 215 then c + 32
      else c)"

definition py_lower :: "pystr \<Rightarrow> pystr" where
  "py_lower s = map lower_cp s"

fun startswith :: "pystr \<Rightarrow> pystr \<Rightarrow> bool" where
  "startswith xs [] = True"
| "startswith [] (k # ks) = False"
| "startswith (x # xs) (k # ks) = (x = k \<and> startswith xs ks)"

text \<open>\<open>py_in k s\<close> is the Python test \<^verbatim>\<open>k in s\<close> on strings: \<open>k\<close> occurs in \<open>s\<close> as a
  contiguous block.\<close>

fun py_in :: "pystr \<Rightarrow> pystr \<Rightarrow> bool" where
  "py_in k [] = (k = [])"
| "py_in k (c # cs) = (startswith (c # cs) k \<or> py_in k cs)"

subsection \<open>Content metadata and the risk classifier (content\_analyzer.py)\<close>

text \<open>
  The metadata dictionary, with the keys the code reads. \<open>None\<close> is an absent key, for
  which the code takes the default of its \<^verbatim>\<open>.get\<close>.
\<close>

record metadata =
  title :: "pystr option"
  description :: "pystr option"
  category :: "pystr option"
  target_age_min :: "int option"
  target_age_max :: "int option"
  duration_seconds :: "int option"

definition empty_metadata :: metadata where
  "empty_metadata = \<lparr>title = None, description = None, category = None,
     target_age_min = None, target_age_max = None, duration_seconds = None\<rparr>"

definition get_or :: "'a option \<Rightarrow> 'a \<Rightarrow> 'a" where
  "get_or v d = (case v of None \<Rightarrow> d | Some x \<Rightarrow> x)"

text \<open>The four level strings of \<^verbatim>\<open>_get_risk_level\<close>: high, medium, low, minimal
  (the accents of the second and the fourth are dropped in the constructor names).\<close>

datatype risk_level = ALTO | MEDIO | BAIXO | MINIMO

text \<open>The explanatory strings, one constructor for each literal or f-string template of
  \<^verbatim>\<open>classify_content_risk\<close>; the argument is the interpolated keyword or category.\<close>

datatype risk_factor =
    Very_young_children
  | Child_content
  | Teen_content
  | High_risk_keyword pystr
  | Medium_risk_keyword pystr
  | Suspicious_category pystr
  | Very_short_duration

record risk_assessment =
  risk_score :: rat
  risk_level :: risk_level
  risk_factors :: "risk_factor list"

definition high_risk :: "pystr list" where
  "high_risk =
     [ascii ''crian'' @ [231] @ ascii ''a'', ascii ''menino'', ascii ''menina'',
      ascii ''beb'' @ [234], ascii ''infantil'', ascii ''kids'', ascii ''children'']"

definition medium_risk :: "pystr list" where
  "medium_risk =
     [ascii ''jovem'', ascii ''adolescente'', ascii ''teen'', ascii ''escola'', ascii ''school'']"

definition suspicious_categories :: "pystr list" where
  "suspicious_categories =
     [ascii ''kids'', ascii ''children'', ascii ''family'', ascii ''educational'']"

definition get_risk_level :: "rat \<Rightarrow> risk_level" where
  "get_risk_level score =
     (if score \<ge> 7/10 then ALTO
      else if score \<ge> 4/10 then MEDIO
      else if score \<ge> 2/10 then BAIXO
      else MINIMO)"

text \<open>The state of the classifier's body: the running \<^verbatim>\<open>risk_score\<close> and the list
  \<^verbatim>\<open>risk_factors\<close>.\<close>

type_synonym risk_acc = "rat \<times> risk_factor list"

definition age_rule :: "int \<Rightarrow> risk_acc \<Rightarrow> risk_acc" where
  "age_rule tmax acc =
     (case acc of (score, factors) \<Rightarrow>
        if tmax \<le> 8 then (score + 8/10, factors @ [Very_young_children])
        else if tmax \<le> 12 then (score + 6/10, factors @ [Child_content])
        else if tmax \<le> 16 then (score + 3/10, factors @ [Teen_content])
        else (score, factors))"

text \<open>One \<^verbatim>\<open>for keyword in ...\<close> loop: each keyword found in the text adds \<open>w\<close> and one
  factor.\<close>

fun keyword_loop :: "rat \<Rightarrow> (pystr \<Rightarrow> risk_factor) \<Rightarrow> pystr \<Rightarrow> pystr list \<Rightarrow> risk_acc \<Rightarrow> risk_acc" where
  "keyword_loop w mk text [] acc = acc"
| "keyword_loop w mk text (k # ks) acc =
     keyword_loop w mk text ks
       (if py_in k text then (fst acc + w, snd acc @ [mk k]) else acc)"

definition category_rule :: "pystr \<Rightarrow> risk_acc \<Rightarrow> risk_acc" where
  "category_rule cat acc =
     (if cat \<in> set suspicious_categories
      then (fst acc + 2/10, snd acc @ [Suspicious_category cat]) else acc)"

definition duration_rule :: "int \<Rightarrow> risk_acc \<Rightarrow> risk_acc" where
  "duration_rule duration acc =
     (if 0 < duration \<and> duration < 60
      then (fst acc + 1/10, snd acc @ [Very_short_duration]) else acc)"

definition text_content :: "metadata \<Rightarrow> pystr" where
  "text_content m = py_lower (get_or (title m) [] @ [32] @ get_or (description m) [])"

definition raw_risk :: "metadata \<Rightarrow> risk_acc" where
  "raw_risk m =
     duration_rule (get_or (duration_seconds m) 0)
       (category_rule (py_lower (get_or (category m) []))
          (keyword_loop (1/10) Medium_risk_keyword (text_content m) medium_risk
             (keyword_loop (3/10) High_risk_keyword (text_content m) high_risk
                (age_rule (get_or (target_age_max m) 100) (0, [])))))"

definition classify_content_risk :: "metadata \<Rightarrow> risk_assessment" where
  "classify_content_risk m =
     (case raw_risk m of (score, factors) \<Rightarrow>
        \<lparr>risk_score = min 1 score,
         risk_level = get_risk_level (min 1 score),
         risk_factors = factors\<rparr>)"

subsection \<open>The store (main.py, class SocialNetworkAnalyzer)\<close>

type_synonym uid = string
type_synonym cid = string
type_synonym time = nat

datatype error = NetworkXError | CentralityError

text \<open>An entry of a user's \<^verbatim>\<open>'content_consumed'\<close> list.\<close>

record interaction =
  i_content_id :: cid
  i_content_type :: string
  i_interaction_type :: string
  i_timestamp :: time
  i_metadata :: metadata

text \<open>An entry of a content item's \<^verbatim>\<open>'interactions'\<close> list.\<close>

record content_interaction =
  ci_user_id :: uid
  ci_interaction_type :: string
  ci_timestamp :: time

record content_item =
  c_content_id :: cid
  c_content_type :: string
  c_interactions :: "content_interaction list"
  c_flags :: "string list"
  c_metadata :: metadata

text \<open>Values of the profile attributes that the engine never reads.\<close>

datatype pyval = Str pystr | Int int | Num rat | Time time

text \<open>
  A user profile: the six keys that \<^verbatim>\<open>add_user\<close> writes, and in \<open>p_extra\<close> every other key
  that came with \<^verbatim>\<open>profile_data\<close>.
\<close>

record profile =
  p_user_id :: uid
  p_age :: int
  p_registration_date :: time
  p_suspicious_score :: rat
  p_content_consumed :: "interaction list"
  p_connections :: "uid list"
  p_extra :: "(string \<times> pyval) list"

text \<open>
  The argument \<^verbatim>\<open>profile_data\<close>, a dictionary with any keys. A key that is also one of the
  six keys of the profile is an optional field here, with a value of that field's type
  (a value of another Python type would make later reads of the profile raise TypeError or
  AttributeError; such dictionaries are outside this model). The other keys are \<open>pd_extra\<close>.
\<close>

record profile_data =
  pd_user_id :: "uid option"
  pd_age :: "int option"
  pd_registration_date :: "time option"
  pd_suspicious_score :: "rat option"
  pd_content_consumed :: "interaction list option"
  pd_connections :: "uid list option"
  pd_extra :: "(string \<times> pyval) list"

text \<open>\<^verbatim>\<open>profile.update(profile_data)\<close>: every key of the argument replaces the profile's.\<close>

definition dict_update :: "profile \<Rightarrow> profile_data \<Rightarrow> profile" where
  "dict_update p d =
     \<lparr>p_user_id = get_or (pd_user_id d) (p_user_id p),
      p_age = get_or (pd_age d) (p_age p),
      p_registration_date = get_or (pd_registration_date d) (p_registration_date p),
      p_suspicious_score = get_or (pd_suspicious_score d) (p_suspicious_score p),
      p_content_consumed = get_or (pd_content_consumed d) (p_content_consumed p),
      p_connections = get_or (pd_connections d) (p_connections p),
      p_extra = fold (\<lambda>(k, v). AList.update k v) (pd_extra d) (p_extra p)\<rparr>"

text \<open>
  The undirected \<^verbatim>\<open>networkx.Graph\<close>: its nodes in insertion order, and one entry for each
  edge, under the pair of endpoints in the order of the edge's first insertion, with the
  edge's attributes.
\<close>

record edge_data =
  e_connection_type :: string
  e_weight :: rat
  e_timestamp :: time

record graph =
  g_nodes :: "uid list"
  g_edges :: "((uid \<times> uid) \<times> edge_data) list"

definition empty_graph :: graph where
  "empty_graph = \<lparr>g_nodes = [], g_edges = []\<rparr>"

definition add_node :: "uid \<Rightarrow> graph \<Rightarrow> graph" where
  "add_node u g = (if u \<in> set (g_nodes g) then g else g\<lparr>g_nodes := g_nodes g @ [u]\<rparr>)"

definition same_edge :: "uid \<times> uid \<Rightarrow> uid \<times> uid \<Rightarrow> bool" where
  "same_edge e e' = (e' = e \<or> e' = (snd e, fst e))"

fun set_edge ::
  "uid \<times> uid \<Rightarrow> edge_data \<Rightarrow> ((uid \<times> uid) \<times> edge_data) list \<Rightarrow> ((uid \<times> uid) \<times> edge_data) list"
where
  "set_edge e d [] = [(e, d)]"
| "set_edge e d (x # xs) = (if same_edge e (fst x) then (fst x, d) # xs else x # set_edge e d xs)"

text \<open>\<^verbatim>\<open>Graph.add_edge(u, v, **attr)\<close>: missing endpoints become nodes; an edge that is
  already there keeps its place and takes the new attributes.\<close>

definition add_edge :: "uid \<Rightarrow> uid \<Rightarrow> edge_data \<Rightarrow> graph \<Rightarrow> graph" where
  "add_edge u v d g =
     (let g' = add_node v (add_node u g) in g'\<lparr>g_edges := set_edge (u, v) d (g_edges g')\<rparr>)"

definition number_of_edges :: "graph \<Rightarrow> nat" where
  "number_of_edges g = length (g_edges g)"

record analyzer =
  graph :: graph
  user_profiles :: "(uid \<times> profile) list"
  content_data :: "(cid \<times> content_item) list"

definition init :: analyzer where
  "init = \<lparr>graph = empty_graph, user_profiles = [], content_data = []\<rparr>"

definition registered :: "analyzer \<Rightarrow> uid \<Rightarrow> bool" where
  "registered s u = (u \<in> fst ` set (user_profiles s))"

definition new_profile :: "uid \<Rightarrow> int \<Rightarrow> time \<Rightarrow> profile" where
  "new_profile user_id age now =
     \<lparr>p_user_id = user_id, p_age = age, p_registration_date = now, p_suspicious_score = 0,
      p_content_consumed = [], p_connections = [], p_extra = []\<rparr>"

text \<open>\<^verbatim>\<open>add_user(user_id, age, profile_data=None)\<close>; \<^verbatim>\<open>if profile_data:\<close> skips both \<^verbatim>\<open>None\<close> and
  the empty dictionary, for which the update changes nothing either.\<close>

definition add_user :: "uid \<Rightarrow> int \<Rightarrow> profile_data option \<Rightarrow> time \<Rightarrow> analyzer \<Rightarrow> analyzer" where
  "add_user user_id age pdata now s =
     (let profile = new_profile user_id age now;
          profile' = (case pdata of None \<Rightarrow> profile | Some d \<Rightarrow> dict_update profile d)
      in s\<lparr>graph := add_node user_id (graph s),
           user_profiles := AList.update user_id profile' (user_profiles s)\<rparr>)"

definition append_connection :: "uid \<Rightarrow> uid \<Rightarrow> (uid \<times> profile) list \<Rightarrow> (uid \<times> profile) list" where
  "append_connection u v ps =
     AList.map_entry u (\<lambda>p. p\<lparr>p_connections := p_connections p @ [v]\<rparr>) ps"

definition add_connection :: "uid \<Rightarrow> uid \<Rightarrow> string \<Rightarrow> rat \<Rightarrow> time \<Rightarrow> analyzer \<Rightarrow> analyzer" where
  "add_connection user1 user2 connection_type weight now s =
     (if registered s user1 \<and> registered s user2 then
        s\<lparr>graph := add_edge user1 user2
                      \<lparr>e_connection_type = connection_type, e_weight = weight, e_timestamp = now\<rparr>
                      (graph s),
          user_profiles :=
            append_connection user2 user1 (append_connection user1 user2 (user_profiles s))\<rparr>
      else s)"

text \<open>
  \<^verbatim>\<open>add_content_interaction\<close> returns \<^verbatim>\<open>False\<close> or \<^verbatim>\<open>True\<close>, here next to the store it leaves.
  It reads the clock twice (\<open>t1\<close> for the user's entry, \<open>t2\<close> for the content's entry).
\<close>

definition add_content_interaction ::
  "uid \<Rightarrow> cid \<Rightarrow> string \<Rightarrow> string \<Rightarrow> metadata option \<Rightarrow> time \<Rightarrow> time \<Rightarrow> analyzer \<Rightarrow> bool \<times> analyzer"
where
  "add_content_interaction user_id content_id content_type interaction_type content_metadata t1 t2 s =
     (if \<not> registered s user_id then (False, s)
      else
        let interaction =
              \<lparr>i_content_id = content_id, i_content_type = content_type,
               i_interaction_type = interaction_type, i_timestamp = t1,
               i_metadata = get_or content_metadata empty_metadata\<rparr>;
            profiles = AList.map_entry user_id
              (\<lambda>p. p\<lparr>p_content_consumed := p_content_consumed p @ [interaction]\<rparr>) (user_profiles s);
            contents =
              (if content_id \<in> fst ` set (content_data s) then content_data s
               else AList.update content_id
                      \<lparr>c_content_id = content_id, c_content_type = content_type,
                       c_interactions = [], c_flags = [],
                       c_metadata = get_or content_metadata empty_metadata\<rparr> (content_data s));
            contents' = AList.map_entry content_id
              (\<lambda>c. c\<lparr>c_interactions := c_interactions c @
                  [\<lparr>ci_user_id = user_id, ci_interaction_type = interaction_type,
                    ci_timestamp = t2\<rparr>]\<rparr>) contents
        in (True, s\<lparr>user_profiles := profiles, content_data := contents'\<rparr>))"

subsection \<open>Suspicion scoring (detect\_suspicious\_content\_patterns)\<close>

record suspicion_record =
  sr_user_id :: uid
  sr_age :: int
  child_content_ratio :: rat
  child_content_count :: nat
  total_content_count :: nat
  suspicion_score :: rat
  connections_count :: nat

definition child_content_types :: "string list" where
  "child_content_types = [''kids_video'', ''children_game'', ''educational_kids'']"

definition is_child_content :: "interaction \<Rightarrow> bool" where
  "is_child_content i =
     (i_content_type i \<in> set child_content_types
      \<or> get_or (target_age_max (i_metadata i)) 100 < 13)"

definition count_child_content :: "interaction list \<Rightarrow> nat" where
  "count_child_content consumed = length (filter is_child_content consumed)"

definition content_ratio :: "nat \<Rightarrow> nat \<Rightarrow> rat" where
  "content_ratio child_count total_count = of_nat child_count / of_nat total_count"

definition suspicion_threshold :: "int \<Rightarrow> rat" where
  "suspicion_threshold age = max (1/10) (5/10 - of_int (age - 25) * (2/100))"

definition score_of_ratio :: "rat \<Rightarrow> rat" where
  "score_of_ratio ratio = min 1 (ratio * 2)"

text \<open>The body of the loop for one entry of \<^verbatim>\<open>user_profiles\<close>: \<open>None\<close> where the code
  continues or does not flag, the record it appends otherwise.\<close>

definition score_user :: "uid \<Rightarrow> profile \<Rightarrow> suspicion_record option" where
  "score_user user_id profile =
     (if p_age profile < 18 then None
      else
        let total_count = length (p_content_consumed profile) in
        if total_count = 0 then None
        else
          let child_count = count_child_content (p_content_consumed profile);
              ratio = content_ratio child_count total_count;
              age = p_age profile
          in if ratio > suspicion_threshold age \<and> child_count > 5 then
               Some \<lparr>sr_user_id = user_id, sr_age = age, child_content_ratio = ratio,
                     child_content_count = child_count, total_content_count = total_count,
                     suspicion_score = score_of_ratio ratio,
                     connections_count = length (p_connections profile)\<rparr>
             else None)"

text \<open>
  The loop over \<^verbatim>\<open>self.user_profiles.items()\<close>: the records found, in the order of the
  dictionary, and the dictionary with the score written into each flagged profile.
\<close>

fun detect_loop :: "(uid \<times> profile) list \<Rightarrow> suspicion_record list \<times> (uid \<times> profile) list" where
  "detect_loop [] = ([], [])"
| "detect_loop (entry # rest) =
     (case score_user (fst entry) (snd entry) of
        None \<Rightarrow> (fst (detect_loop rest), entry # snd (detect_loop rest))
      | Some r \<Rightarrow>
          (r # fst (detect_loop rest),
           (fst entry, (snd entry)\<lparr>p_suspicious_score := suspicion_score r\<rparr>)
             # snd (detect_loop rest)))"

text \<open>\<^verbatim>\<open>sorted(xs, key=..., reverse=True)\<close>: the list is reversed, sorted by a stable ascending
  sort and reversed again.\<close>

definition sorted_reverse :: "('a \<Rightarrow> rat) \<Rightarrow> 'a list \<Rightarrow> 'a list" where
  "sorted_reverse key xs = rev (sort_key key (rev xs))"

definition detect_suspicious_content_patterns :: "analyzer \<Rightarrow> suspicion_record list \<times> analyzer" where
  "detect_suspicious_content_patterns s =
     (sorted_reverse suspicion_score (fst (detect_loop (user_profiles s))),
      s\<lparr>user_profiles := snd (detect_loop (user_profiles s))\<rparr>)"

text \<open>What one pass of the loop leaves in the dictionary for an entry.\<close>

definition write_back :: "uid \<times> profile \<Rightarrow> uid \<times> profile" where
  "write_back entry =
     (case score_user (fst entry) (snd entry) of
        None \<Rightarrow> entry
      | Some r \<Rightarrow> (fst entry, (snd entry)\<lparr>p_suspicious_score := suspicion_score r\<rparr>))"

subsection \<open>Graph algorithms taken from networkx\<close>

text \<open>
  The functions of networkx that \<^verbatim>\<open>analyze_suspicious_networks\<close> calls, on the graph
  representation above. A Python \<^verbatim>\<open>set\<close> of nodes is a HOL set. The order in which
  networkx walks the nodes of a subgraph view can be that of a hash set; here it is the
  order of the node list, and the properties proved below do not depend on it.
\<close>

definition adj_list :: "graph \<Rightarrow> uid \<Rightarrow> uid list" where
  "adj_list g u =
     concat (map (\<lambda>e. (if fst (fst e) = u then [snd (fst e)] else [])
                      @ (if snd (fst e) = u then [fst (fst e)] else [])) (g_edges g))"

definition adj :: "graph \<Rightarrow> uid \<Rightarrow> uid set" where
  "adj g u = set (adj_list g u)"

text \<open>\<^verbatim>\<open>Graph.neighbors(n)\<close> raises NetworkXError for a node that is not in the graph.\<close>

definition neighbors :: "graph \<Rightarrow> uid \<Rightarrow> error + uid set" where
  "neighbors g u = (if u \<in> set (g_nodes g) then Inr (adj g u) else Inl NetworkXError)"

text \<open>\<^verbatim>\<open>Graph.subgraph(nodes)\<close>: the nodes of the graph that are in the given set, and the
  edges with both ends there.\<close>

definition subgraph :: "graph \<Rightarrow> uid set \<Rightarrow> graph" where
  "subgraph g ns =
     \<lparr>g_nodes = filter (\<lambda>v. v \<in> ns) (g_nodes g),
      g_edges = filter (\<lambda>e. fst (fst e) \<in> ns \<and> snd (fst e) \<in> ns) (g_edges g)\<rparr>"

text \<open>
  Breadth-first search by levels, as in \<^verbatim>\<open>_plain_bfs\<close> and in
  \<^verbatim>\<open>single_source_shortest_path_length\<close>: \<open>seen\<close> are the nodes found so far, \<open>level\<close>
  the last level found, \<open>d\<close> its distance from the source. The result is all nodes found
  and the distance of the last level.
\<close>

definition next_level :: "graph \<Rightarrow> uid list \<Rightarrow> uid list \<Rightarrow> uid list" where
  "next_level g seen level =
     filter (\<lambda>w. w \<notin> set seen \<and> (\<exists>v \<in> set level. w \<in> adj g v)) (g_nodes g)"

function bfs :: "graph \<Rightarrow> uid list \<Rightarrow> uid list \<Rightarrow> nat \<Rightarrow> uid list \<times> nat" where
  "bfs g seen level d =
     (if next_level g seen level = [] then (seen, d)
      else bfs g (seen @ next_level g seen level) (next_level g seen level) (Suc d))"
  by pat_completeness auto

definition unseen :: "graph \<Rightarrow> uid list \<Rightarrow> nat" where
  "unseen g seen = length (filter (\<lambda>w. w \<notin> set seen) (g_nodes g))"

termination bfs
proof (relation "measure (\<lambda>(g, seen, level, d). unseen g seen)")
  show "wf (measure (\<lambda>(g, seen, level, d). unseen g seen))"
    by simp
next
  fix g :: graph and seen level :: "uid list" and d :: nat
  assume nonempty: "next_level g seen level \<noteq> []"
  let ?new = "next_level g seen level"
  let ?old = "filter (\<lambda>w. w \<notin> set seen) (g_nodes g)"
  from nonempty obtain w where w: "w \<in> set ?new"
    by (cases ?new) auto
  then have "w \<in> set ?old"
    by (simp add: next_level_def)
  then have "length (filter (\<lambda>x. x \<notin> set ?new) ?old) < length ?old"
    using w by (intro length_filter_less) simp_all
  moreover have "filter (\<lambda>x. x \<notin> set (seen @ ?new)) (g_nodes g) = filter (\<lambda>x. x \<notin> set ?new) ?old"
    by (simp add: conj_commute)
  ultimately have "unseen g (seen @ ?new) < unseen g seen"
    by (simp add: unseen_def)
  then show "((g, seen @ ?new, ?new, Suc d), (g, seen, level, d))
      \<in> measure (\<lambda>(g, seen, level, d). unseen g seen)"
    by simp
qed

definition plain_bfs :: "graph \<Rightarrow> uid \<Rightarrow> uid set" where
  "plain_bfs g source = set (fst (bfs g [source] [source] 0))"

definition eccentricity :: "graph \<Rightarrow> uid \<Rightarrow> nat" where
  "eccentricity g v = snd (bfs g [v] [v] 0)"

text \<open>\<^verbatim>\<open>connected_components\<close>: each node that is in no earlier component starts one.\<close>

fun components_from :: "graph \<Rightarrow> uid list \<Rightarrow> uid set \<Rightarrow> uid set list" where
  "components_from g [] seen = []"
| "components_from g (v # vs) seen =
     (if v \<in> seen then components_from g vs seen
      else plain_bfs g v # components_from g vs (seen \<union> plain_bfs g v))"

definition connected_components :: "graph \<Rightarrow> uid set list" where
  "connected_components g = components_from g (g_nodes g) {}"

text \<open>\<^verbatim>\<open>density\<close> of an undirected graph.\<close>

definition density :: "graph \<Rightarrow> rat" where
  "density g =
     (let n = length (g_nodes g); m = number_of_edges g
      in if m = 0 \<or> n \<le> 1 then 0 else of_nat m / of_nat (n * (n - 1)) * 2)"

text \<open>\<^verbatim>\<open>clustering\<close> of a node of an unweighted undirected graph: with \<open>vs\<close> the neighbours
  of \<open>v\<close> other than \<open>v\<close>, \<open>t\<close> counts the pairs of adjacent members of \<open>vs\<close> (each twice).\<close>

definition clustering :: "graph \<Rightarrow> uid \<Rightarrow> rat" where
  "clustering g v =
     (let vs = adj g v - {v};
          t = (\<Sum>w \<in> vs. card (vs \<inter> (adj g w - {w})));
          d = card vs
      in if t = 0 then 0 else of_nat t / of_nat (d * (d - 1)))"

text \<open>\<^verbatim>\<open>average_clustering\<close>, \<^verbatim>\<open>is_connected\<close> and \<^verbatim>\<open>diameter\<close>. On a graph without nodes
  the first raises ZeroDivisionError and the second NetworkXPointlessConcept; the code
  calls them on the subgraph of a component, which has its source node.\<close>

definition average_clustering :: "graph \<Rightarrow> rat" where
  "average_clustering g =
     sum_list (map (clustering g) (g_nodes g)) / of_nat (length (g_nodes g))"

definition is_connected :: "graph \<Rightarrow> bool" where
  "is_connected g =
     (case g_nodes g of [] \<Rightarrow> False
      | v # vs \<Rightarrow> card (plain_bfs g v) = length (g_nodes g))"

definition graph_diameter :: "graph \<Rightarrow> nat" where
  "graph_diameter g = fold max (map (eccentricity g) (g_nodes g)) 0"

subsection \<open>Suspicious subnetworks (analyze\_suspicious\_networks)\<close>

datatype diameter = Diameter nat | NA

record component_analysis =
  component_id :: nat
  total_users :: nat
  suspicious_users :: nat
  suspicious_user_ids :: "uid set"
  ca_density :: rat
  avg_clustering :: rat
  ca_diameter :: diameter

record network_analysis =
  total_suspicious_users :: nat
  na_connected_components :: nat
  largest_component_size :: nat
  components_analysis :: "component_analysis list"

definition suspicious_ids :: "suspicion_record list \<Rightarrow> uid set" where
  "suspicious_ids suspicious = set (map sr_user_id suspicious)"

text \<open>The set \<^verbatim>\<open>extended_suspicious\<close>; the loop raises at the first id that is not a node.\<close>

definition extended_suspicious :: "graph \<Rightarrow> uid set \<Rightarrow> error + uid set" where
  "extended_suspicious g ids =
     (if ids \<subseteq> set (g_nodes g) then Inr (ids \<union> (\<Union>u \<in> ids. adj g u))
      else Inl NetworkXError)"

definition analyze_component :: "graph \<Rightarrow> uid set \<Rightarrow> nat \<times> uid set \<Rightarrow> component_analysis" where
  "analyze_component sub ids ic =
     (let component = snd ic;
          suspicious_in_component = component \<inter> ids;
          component_subgraph = subgraph sub component
      in \<lparr>component_id = fst ic,
          total_users = card component,
          suspicious_users = card suspicious_in_component,
          suspicious_user_ids = suspicious_in_component,
          ca_density = density component_subgraph,
          avg_clustering = average_clustering component_subgraph,
          ca_diameter = (if is_connected component_subgraph
                         then Diameter (graph_diameter component_subgraph) else NA)\<rparr>)"

definition analyze_suspicious_networks ::
  "analyzer \<Rightarrow> suspicion_record list \<Rightarrow> error + network_analysis"
where
  "analyze_suspicious_networks s suspicious =
     (let ids = suspicious_ids suspicious in
      case extended_suspicious (graph s) ids of
        Inl e \<Rightarrow> Inl e
      | Inr extended \<Rightarrow>
          let sub = subgraph (graph s) extended;
              components = connected_components sub
          in Inr \<lparr>total_suspicious_users = card ids,
                  na_connected_components = length components,
                  largest_component_size =
                    (if components = [] then 0 else Max (set (map card components))),
                  components_analysis =
                    map (analyze_component sub ids)
                      (filter (\<lambda>ic. card (snd ic \<inter> ids) > 1) (enumerate 0 components))\<rparr>)"

subsection \<open>The risk report (generate\_risk\_report)\<close>

record centrality =
  cm_degree :: rat
  cm_betweenness :: rat
  cm_closeness :: rat
  cm_eigenvector :: rat

text \<open>
  The four centrality functions of networkx are a parameter: from the graph they give the
  four values of each node, or \<open>None\<close> when one of them raises (the power iteration of
  \<^verbatim>\<open>eigenvector_centrality\<close> may fail to converge, and it rejects the graph without nodes).
\<close>

type_synonym centrality_functions = "graph \<Rightarrow> (uid \<Rightarrow> centrality) option"

definition calculate_user_centrality_metrics ::
  "centrality_functions \<Rightarrow> analyzer \<Rightarrow> error + (uid \<times> centrality) list"
where
  "calculate_user_centrality_metrics nx s =
     (case nx (graph s) of
        None \<Rightarrow> Inl CentralityError
      | Some metrics \<Rightarrow> Inr (map (\<lambda>user_id. (user_id, metrics user_id)) (g_nodes (graph s))))"

text \<open>The four recommendation texts, with the number each one interpolates.\<close>

datatype recommendation =
    Alert nat
  | High_priority nat
  | Networks_identified nat
  | Complex_networks nat

definition generate_recommendations ::
  "suspicion_record list \<Rightarrow> network_analysis \<Rightarrow> recommendation list"
where
  "generate_recommendations suspicious na =
     (if length suspicious > 10 then [Alert (length suspicious)] else [])
     @ (let high_risk_count = length (filter (\<lambda>u. suspicion_score u > 7/10) suspicious)
        in if high_risk_count > 0 then [High_priority high_risk_count] else [])
     @ (if na_connected_components na > 0
        then [Networks_identified (na_connected_components na)] else [])
     @ (let large_components = filter (\<lambda>c. suspicious_users c \<ge> 3) (components_analysis na)
        in if large_components \<noteq> [] then [Complex_networks (length large_components)] else [])"

record summary =
  sm_total_users :: nat
  total_connections :: nat
  suspicious_users_count :: nat
  high_risk_users :: nat

record report =
  rp_timestamp :: time
  rp_summary :: summary
  rp_suspicious_users :: "suspicion_record list"
  rp_network_analysis :: network_analysis
  influential_suspicious :: "(suspicion_record \<times> centrality) list"
  recommendations :: "recommendation list"

text \<open>The loop over \<^verbatim>\<open>suspicious_users[:10]\<close>: a record is kept, with its metrics, when its
  id is a key of the centrality dictionary.\<close>

definition influential :: "(uid \<times> centrality) list \<Rightarrow> suspicion_record list \<Rightarrow> (suspicion_record \<times> centrality) list" where
  "influential centrality_metrics suspicious =
     List.map_filter
       (\<lambda>user. map_option (Pair user) (map_of centrality_metrics (sr_user_id user)))
       (take 10 suspicious)"

text \<open>
  \<^verbatim>\<open>generate_risk_report\<close>: the report, or the error of the first call that raises, next to
  the store as the detection has left it.
\<close>

definition generate_risk_report ::
  "centrality_functions \<Rightarrow> time \<Rightarrow> analyzer \<Rightarrow> (error + report) \<times> analyzer"
where
  "generate_risk_report nx now s =
     (let suspicious = fst (detect_suspicious_content_patterns s);
          s' = snd (detect_suspicious_content_patterns s)
      in ((case analyze_suspicious_networks s' suspicious of
            Inl e \<Rightarrow> Inl e
          | Inr na \<Rightarrow>
              (case calculate_user_centrality_metrics nx s' of
                 Inl e \<Rightarrow> Inl e
               | Inr centrality_metrics \<Rightarrow>
                   Inr \<lparr>rp_timestamp = now,
                        rp_summary =
                          \<lparr>sm_total_users = length (user_profiles s'),
                           total_connections = number_of_edges (graph s'),
                           suspicious_users_count = length suspicious,
                           high_risk_users =
                             length (filter (\<lambda>u. suspicion_score u > 7/10) suspicious)\<rparr>,
                        rp_suspicious_users = take 20 suspicious,
                        rp_network_analysis = na,
                        influential_suspicious = influential centrality_metrics suspicious,
                        recommendations = generate_recommendations suspicious na\<rparr>)),
          s'))"

subsection \<open>Behaviour patterns (content\_analyzer.py, analyze\_user\_content\_patterns)\<close>

text \<open>
  The part of \<^verbatim>\<open>pattern_analysis\<close> that the loop over the interactions and the two summary
  lines compute. The keys \<^verbatim>\<open>'temporal_patterns'\<close> and \<^verbatim>\<open>'suspicious_indicators'\<close>, which
  those lines neither read nor write, are left out.
\<close>

record pattern_analysis =
  pa_user_id :: uid
  pa_age :: int
  total_interactions :: nat
  content_types :: "(string \<times> nat) list"
  risk_distribution :: "(risk_level \<times> nat) list"
  interaction_types :: "(string \<times> nat) list"
  avg_risk_score :: rat
  high_risk_ratio :: rat

text \<open>\<^verbatim>\<open>d[k] += 1\<close> on a \<^verbatim>\<open>defaultdict(int)\<close>.\<close>

definition tally :: "'k \<Rightarrow> ('k \<times> nat) list \<Rightarrow> ('k \<times> nat) list" where
  "tally k d = AList.update k (get_or (map_of d k) 0 + 1) d"

definition tally_count :: "('k \<times> nat) list \<Rightarrow> 'k \<Rightarrow> nat" where
  "tally_count d k = get_or (map_of d k) 0"

record pattern_acc =
  acc_content_types :: "(string \<times> nat) list"
  acc_interaction_types :: "(string \<times> nat) list"
  acc_risk_distribution :: "(risk_level \<times> nat) list"
  total_risk_score :: rat
  high_risk_content_count :: nat

definition pattern_acc0 :: pattern_acc where
  "pattern_acc0 = \<lparr>acc_content_types = [], acc_interaction_types = [],
     acc_risk_distribution = [], total_risk_score = 0, high_risk_content_count = 0\<rparr>"

text \<open>One pass of \<^verbatim>\<open>for interaction in profile['content_consumed']\<close>.\<close>

definition pattern_step :: "(cid \<times> content_item) list \<Rightarrow> interaction \<Rightarrow> pattern_acc \<Rightarrow> pattern_acc" where
  "pattern_step contents i acc =
     (let acc' = acc\<lparr>acc_content_types := tally (i_content_type i) (acc_content_types acc),
                     acc_interaction_types :=
                       tally (i_interaction_type i) (acc_interaction_types acc)\<rparr>
      in case map_of contents (i_content_id i) of
           None \<Rightarrow> acc'
         | Some item \<Rightarrow>
             let content_risk = classify_content_risk (c_metadata item);
                 level = risk_level content_risk
             in acc'\<lparr>acc_risk_distribution := tally level (acc_risk_distribution acc'),
                     total_risk_score := total_risk_score acc' + risk_score content_risk,
                     high_risk_content_count :=
                       high_risk_content_count acc'
                         + (if level = ALTO \<or> level = MEDIO then 1 else 0)\<rparr>)"

definition analyze_profile :: "(cid \<times> content_item) list \<Rightarrow> uid \<Rightarrow> profile \<Rightarrow> pattern_analysis" where
  "analyze_profile contents user_id profile =
     (let consumed = p_content_consumed profile;
          acc = fold (pattern_step contents) consumed pattern_acc0
      in \<lparr>pa_user_id = user_id,
          pa_age = p_age profile,
          total_interactions = length consumed,
          content_types = acc_content_types acc,
          risk_distribution = acc_risk_distribution acc,
          interaction_types = acc_interaction_types acc,
          avg_risk_score = total_risk_score acc / of_nat (length consumed),
          high_risk_ratio = of_nat (high_risk_content_count acc) / of_nat (length consumed)\<rparr>)"

definition analyze_user_content_patterns ::
  "(uid \<times> profile) list \<Rightarrow> (cid \<times> content_item) list \<Rightarrow> (uid \<times> pattern_analysis) list"
where
  "analyze_user_content_patterns profiles contents =
     map (\<lambda>entry. (fst entry, analyze_profile contents (fst entry) (snd entry)))
       (filter (\<lambda>entry. length (p_content_consumed (snd entry)) \<noteq> 0) profiles)"

text \<open>The scores of the interactions whose content id is a key of the catalogue, in the
  order of the log.\<close>

definition resolvable_scores :: "(cid \<times> content_item) list \<Rightarrow> interaction list \<Rightarrow> rat list" where
  "resolvable_scores contents consumed =
     concat (map (\<lambda>i. case map_of contents (i_content_id i) of
                         None \<Rightarrow> []
                       | Some item \<Rightarrow> [risk_score (classify_content_risk (c_metadata item))])
               consumed)"

text \<open>The average as the specification words it: the mean of the scores over the resolvable
  interactions only.\<close>

definition spec_average_risk_score :: "(cid \<times> content_item) list \<Rightarrow> interaction list \<Rightarrow> rat" where
  "spec_average_risk_score contents consumed =
     sum_list (resolvable_scores contents consumed)
       / of_nat (length (resolvable_scores contents consumed))"

subsection \<open>Well-formed stores and an example\<close>

text \<open>What networkx and the two ingestion functions keep true of the graph: no node is listed
  twice, and the ends of every edge are nodes.\<close>

definition wf_graph :: "graph \<Rightarrow> bool" where
  "wf_graph g =
     (distinct (g_nodes g)
      \<and> (\<forall>e \<in> set (g_edges g). fst (fst e) \<in> set (g_nodes g) \<and> snd (fst e) \<in> set (g_nodes g)))"

definition kids_view :: interaction where
  "kids_view = \<lparr>i_content_id = ''k1'', i_content_type = ''kids_video'',
     i_interaction_type = ''view'', i_timestamp = 0,
     i_metadata = empty_metadata\<lparr>target_age_max := Some 6\<rparr>\<rparr>"

definition other_view :: interaction where
  "other_view = \<lparr>i_content_id = ''n1'', i_content_type = ''news'',
     i_interaction_type = ''view'', i_timestamp = 0, i_metadata = empty_metadata\<rparr>"

definition demo_profile :: "uid \<Rightarrow> int \<Rightarrow> nat \<Rightarrow> nat \<Rightarrow> uid list \<Rightarrow> profile" where
  "demo_profile u a kids others conns =
     \<lparr>p_user_id = u, p_age = a, p_registration_date = 0, p_suspicious_score = 0,
      p_content_consumed = replicate kids kids_view @ replicate others other_view,
      p_connections = conns, p_extra = []\<rparr>"

text \<open>
  Five users: C (50 years, 6 of 20 interactions with children's content), A (45, 8 of 10),
  B (40, 6 of 10), D (16, 10 of 10) and E (30, 1 of 10); A and B are connected, B and D are
  connected.
\<close>

definition demo_store :: analyzer where
  "demo_store =
     \<lparr>graph = \<lparr>g_nodes = [''C'', ''A'', ''B'', ''D'', ''E''],
                g_edges = [((''A'', ''B''), \<lparr>e_connection_type = ''friend'', e_weight = 1, e_timestamp = 0\<rparr>),
                           ((''B'', ''D''), \<lparr>e_connection_type = ''follower'', e_weight = 1, e_timestamp = 0\<rparr>)]\<rparr>,
      user_profiles =
        [(''C'', demo_profile ''C'' 50 6 14 []),
         (''A'', demo_profile ''A'' 45 8 2 [''B'']),
         (''B'', demo_profile ''B'' 40 6 4 [''A'', ''D'']),
         (''D'', demo_profile ''D'' 16 10 0 [''B'']),
         (''E'', demo_profile ''E'' 30 1 9 [])],
      content_data = []\<rparr>"

definition demo_centrality :: centrality_functions where
  "demo_centrality g =
     Some (\<lambda>u. \<lparr>cm_degree = 0, cm_betweenness = 0, cm_closeness = 0, cm_eigenvector = 0\<rparr>)"

text \<open>A catalogue with one item for small children, and a user with one interaction on it
  and one on a content id that the catalogue does not have.\<close>

definition demo_contents :: "(cid \<times> content_item) list" where
  "demo_contents =
     [(''c1'', \<lparr>c_content_id = ''c1'', c_content_type = ''kids_video'', c_interactions = [],
               c_flags = [], c_metadata = empty_metadata\<lparr>target_age_max := Some 5\<rparr>\<rparr>)]"

definition demo_reader :: profile where
  "demo_reader =
     \<lparr>p_user_id = ''R'', p_age = 30, p_registration_date = 0, p_suspicious_score = 0,
      p_content_consumed =
        [\<lparr>i_content_id = ''c1'', i_content_type = ''kids_video'', i_interaction_type = ''view'',
          i_timestamp = 0, i_metadata = empty_metadata\<rparr>,
         \<lparr>i_content_id = ''gone'', i_content_type = ''news'', i_interaction_type = ''share'',
          i_timestamp = 1, i_metadata = empty_metadata\<rparr>],
      p_connections = [], p_extra = []\<rparr>"

section \<open>Properties\<close>

subsection \<open>Risk classifier\<close>

lemma age_rule_mono: "fst acc \<le> fst (age_rule t acc)"
  by (cases acc) (simp add: age_rule_def)

lemma keyword_loop_mono: "0 \<le> w \<Longrightarrow> fst acc \<le> fst (keyword_loop w mk text ks acc)"
proof (induction ks arbitrary: acc)
  case Nil
  show ?case by simp
next
  case (Cons k ks)
  have "fst acc \<le> fst (if py_in k text then (fst acc + w, snd acc @ [mk k]) else acc)"
    using Cons.prems by simp
  also have "\<dots> \<le> fst (keyword_loop w mk text (k # ks) acc)"
    using Cons.IH [OF Cons.prems] by simp
  finally show ?case .
qed

lemma category_rule_mono: "fst acc \<le> fst (category_rule c acc)"
  by (simp add: category_rule_def)

lemma duration_rule_mono: "fst acc \<le> fst (duration_rule d acc)"
  by (simp add: duration_rule_def)

lemma raw_risk_nonneg: "0 \<le> fst (raw_risk m)"
proof -
  let ?a = "age_rule (get_or (target_age_max m) 100) (0, [])"
  let ?h = "keyword_loop (3/10) High_risk_keyword (text_content m) high_risk ?a"
  let ?k = "keyword_loop (1/10) Medium_risk_keyword (text_content m) medium_risk ?h"
  let ?c = "category_rule (py_lower (get_or (category m) [])) ?k"
  have "(0::rat) \<le> fst ?a" using age_rule_mono [of "(0, [])"] by simp
  also have "\<dots> \<le> fst ?h" by (rule keyword_loop_mono) simp
  also have "\<dots> \<le> fst ?k" by (rule keyword_loop_mono) simp
  also have "\<dots> \<le> fst ?c" by (rule category_rule_mono)
  also have "\<dots> \<le> fst (raw_risk m)" unfolding raw_risk_def by (rule duration_rule_mono)
  finally show ?thesis .
qed

lemma classify_fields:
  "risk_score (classify_content_risk m) = min 1 (fst (raw_risk m))"
  "risk_level (classify_content_risk m) = get_risk_level (min 1 (fst (raw_risk m)))"
  "risk_factors (classify_content_risk m) = snd (raw_risk m)"
  by (simp_all add: classify_content_risk_def split: prod.split)

text \<open>
  Claim C3. For every metadata the classifier's \<open>risk_score\<close> lies in \<open>[0, 1]\<close>, and the
  level it returns is fixed by that score: ALTO (high) exactly from 0.7 on, MEDIO (medium)
  exactly on \<open>[0.4, 0.7)\<close>, BAIXO (low) exactly on \<open>[0.2, 0.4)\<close>, MINIMO (minimal) exactly
  below 0.2. The boundary scores 0, 0.2, 0.4, 0.7 and 1 get the levels MINIMO, BAIXO, MEDIO,
  ALTO and ALTO.
\<close>

theorem classify_content_risk_range_and_levels:
  fixes m :: metadata
  defines "r \<equiv> classify_content_risk m"
  shows "0 \<le> risk_score r \<and> risk_score r \<le> 1
       \<and> (risk_level r = ALTO) = (7/10 \<le> risk_score r)
       \<and> (risk_level r = MEDIO) = (4/10 \<le> risk_score r \<and> risk_score r < 7/10)
       \<and> (risk_level r = BAIXO) = (2/10 \<le> risk_score r \<and> risk_score r < 4/10)
       \<and> (risk_level r = MINIMO) = (risk_score r < 2/10)
       \<and> get_risk_level 0 = MINIMO \<and> get_risk_level (2/10) = BAIXO
       \<and> get_risk_level (4/10) = MEDIO \<and> get_risk_level (7/10) = ALTO
       \<and> get_risk_level 1 = ALTO"
proof -
  have lo: "0 \<le> risk_score r"
    using raw_risk_nonneg [of m] by (simp add: r_def classify_fields)
  have hi: "risk_score r \<le> 1"
    by (simp add: r_def classify_fields)
  have lv: "risk_level r = get_risk_level (risk_score r)"
    by (simp add: r_def classify_fields)
  have b: "get_risk_level 0 = MINIMO" "get_risk_level (2/10) = BAIXO"
    "get_risk_level (4/10) = MEDIO" "get_risk_level (7/10) = ALTO" "get_risk_level 1 = ALTO"
    by (simp_all add: get_risk_level_def)
  have l1: "(risk_level r = ALTO) = (7/10 \<le> risk_score r)"
    unfolding lv by (simp add: get_risk_level_def)
  have l2: "(risk_level r = MEDIO) = (4/10 \<le> risk_score r \<and> risk_score r < 7/10)"
    unfolding lv by (auto simp: get_risk_level_def)
  have l3: "(risk_level r = BAIXO) = (2/10 \<le> risk_score r \<and> risk_score r < 4/10)"
    unfolding lv by (auto simp: get_risk_level_def)
  have l4: "(risk_level r = MINIMO) = (risk_score r < 2/10)"
    unfolding lv by (auto simp: get_risk_level_def)
  show ?thesis using lo hi l1 l2 l3 l4 b by blast
qed

text \<open>
  Claim C8. For the metadata with the title of the claim (the code points of "beb", U+00EA
  and " aprende"), target\_age\_max 5, category "kids" and duration 30 seconds, the rules
  add 0.8 (target age at most 8), 0.3 (the one high-risk keyword, "beb" followed by
  U+00EA), 0.2 (suspicious category) and 0.1 (shorter than 60 seconds); the result
  is the score 1, the level ALTO (high) and these four factors, in the order of the rules.
\<close>

theorem classify_bebe_aprende:
  "raw_risk \<lparr>title = Some (ascii ''beb'' @ [234] @ ascii '' aprende''), description = None,
       category = Some (ascii ''kids''), target_age_min = None, target_age_max = Some 5,
       duration_seconds = Some 30\<rparr>
     = (8/10 + 3/10 + 2/10 + 1/10,
        [Very_young_children, High_risk_keyword (ascii ''beb'' @ [234]),
         Suspicious_category (ascii ''kids''), Very_short_duration])
   \<and> classify_content_risk \<lparr>title = Some (ascii ''beb'' @ [234] @ ascii '' aprende''),
       description = None, category = Some (ascii ''kids''), target_age_min = None,
       target_age_max = Some 5, duration_seconds = Some 30\<rparr>
     = \<lparr>risk_score = 1, risk_level = ALTO,
        risk_factors = [Very_young_children, High_risk_keyword (ascii ''beb'' @ [234]),
         Suspicious_category (ascii ''kids''), Very_short_duration]\<rparr>
   \<and> length (risk_factors (classify_content_risk \<lparr>title = Some (ascii ''beb'' @ [234] @ ascii '' aprende''),
       description = None, category = Some (ascii ''kids''), target_age_min = None,
       target_age_max = Some 5, duration_seconds = Some 30\<rparr>)) = 4"
  by code_simp


subsection \<open>Suspicion scoring\<close>

text \<open>
  Claim C9. With the total number of interactions fixed, a larger number of interactions
  with children's content never gives a smaller child\_content\_ratio, nor a smaller
  suspicion score \<open>min(1, ratio * 2)\<close>.
\<close>

theorem suspicion_monotone_in_child_count:
  "c1 \<le> c2 \<Longrightarrow>
     content_ratio c1 t \<le> content_ratio c2 t
     \<and> score_of_ratio (content_ratio c1 t) \<le> score_of_ratio (content_ratio c2 t)"
proof -
  assume le: "c1 \<le> c2"
  have r: "content_ratio c1 t \<le> content_ratio c2 t"
    unfolding content_ratio_def using le by (simp add: divide_right_mono)
  then have "score_of_ratio (content_ratio c1 t) \<le> score_of_ratio (content_ratio c2 t)"
    unfolding score_of_ratio_def by (simp add: min_le_iff_disj)
  with r show ?thesis by simp
qed

lemma score_user_ignores_cached_score:
  "score_user u (p\<lparr>p_suspicious_score := x\<rparr>) = score_user u p"
  by (simp add: score_user_def Let_def)

lemma detect_loop_fst:
  "fst (detect_loop ps) = List.map_filter (\<lambda>e. score_user (fst e) (snd e)) ps"
  by (induction ps) (simp_all add: List.map_filter_simps split: option.split)

lemma detect_loop_snd: "snd (detect_loop ps) = map write_back ps"
  by (induction ps) (simp_all add: write_back_def split: option.split)

lemma score_user_write_back: "score_user (fst (write_back e)) (snd (write_back e)) = score_user (fst e) (snd e)"
  by (simp add: write_back_def score_user_ignores_cached_score split: option.split)

lemma write_back_idem: "write_back (write_back e) = write_back e"
  by (cases "score_user (fst e) (snd e)") (simp_all add: write_back_def score_user_ignores_cached_score)

lemma detect_loop_write_back: "fst (detect_loop (map write_back ps)) = fst (detect_loop ps)"
  by (induction ps) (simp_all add: score_user_write_back split: option.split)


text \<open>
  Claim C7. Running the detection on the store that a first run has left gives the same
  list of suspicious users and leaves that store as it is: the only thing the detection
  writes is the cached score, which it never reads.
\<close>

theorem detect_idempotent:
  "detect_suspicious_content_patterns (snd (detect_suspicious_content_patterns s))
     = detect_suspicious_content_patterns s"
  by (simp add: detect_suspicious_content_patterns_def detect_loop_snd detect_loop_write_back
      write_back_idem)








subsection \<open>Ingestion\<close>

lemma registered_iff: "registered s u = (map_of (user_profiles s) u \<noteq> None)"
  by (simp add: registered_def map_of_eq_None_iff)


text \<open>
  Claim C6. \<^verbatim>\<open>add_connection\<close> leaves the whole store as it is when one of the two ids is
  not registered. \<^verbatim>\<open>add_content_interaction\<close> returns \<^verbatim>\<open>False\<close> exactly when the user is
  not registered, and then leaves the store as it is; for a registered user it returns
  \<^verbatim>\<open>True\<close>, the new interaction is the last entry of the user's log and the new entry is
  the last of the content's interaction list.
\<close>

theorem ingestion_unknown_user:
  "(\<not> registered s u1 \<or> \<not> registered s u2 \<longrightarrow> add_connection u1 u2 ct w now s = s)
   \<and> (fst (add_content_interaction u c ty it md t1 t2 s) = False) = (\<not> registered s u)
   \<and> (\<not> registered s u \<longrightarrow> snd (add_content_interaction u c ty it md t1 t2 s) = s)
   \<and> (registered s u \<longrightarrow>
        fst (add_content_interaction u c ty it md t1 t2 s) = True
        \<and> map_of (user_profiles (snd (add_content_interaction u c ty it md t1 t2 s))) u
            = map_option (\<lambda>p. p\<lparr>p_content_consumed := p_content_consumed p @
                [\<lparr>i_content_id = c, i_content_type = ty, i_interaction_type = it,
                  i_timestamp = t1, i_metadata = get_or md empty_metadata\<rparr>]\<rparr>)
                (map_of (user_profiles s) u)
        \<and> map_option c_interactions
              (map_of (content_data (snd (add_content_interaction u c ty it md t1 t2 s))) c)
            = Some ((case map_of (content_data s) c of None \<Rightarrow> []
                     | Some item \<Rightarrow> c_interactions item)
                    @ [\<lparr>ci_user_id = u, ci_interaction_type = it, ci_timestamp = t2\<rparr>])
        \<and> graph (snd (add_content_interaction u c ty it md t1 t2 s)) = graph s)"
proof -
  have a: "\<not> registered s u1 \<or> \<not> registered s u2 \<longrightarrow> add_connection u1 u2 ct w now s = s"
    by (auto simp: add_connection_def)
  have b: "(fst (add_content_interaction u c ty it md t1 t2 s) = False) = (\<not> registered s u)"
    by (simp add: add_content_interaction_def Let_def)
  have c: "\<not> registered s u \<longrightarrow> snd (add_content_interaction u c ty it md t1 t2 s) = s"
    by (simp add: add_content_interaction_def)
  have d1: "registered s u \<Longrightarrow> fst (add_content_interaction u c ty it md t1 t2 s) = True"
    by (simp add: add_content_interaction_def Let_def)
  have d2: "registered s u \<Longrightarrow>
      map_of (user_profiles (snd (add_content_interaction u c ty it md t1 t2 s))) u
            = map_option (\<lambda>p. p\<lparr>p_content_consumed := p_content_consumed p @
                [\<lparr>i_content_id = c, i_content_type = ty, i_interaction_type = it,
                  i_timestamp = t1, i_metadata = get_or md empty_metadata\<rparr>]\<rparr>)
                (map_of (user_profiles s) u)"
    by (simp add: add_content_interaction_def Let_def map_of_map_entry split: option.split)
  have d3: "registered s u \<Longrightarrow>
      map_option c_interactions
              (map_of (content_data (snd (add_content_interaction u c ty it md t1 t2 s))) c)
            = Some ((case map_of (content_data s) c of None \<Rightarrow> []
                     | Some item \<Rightarrow> c_interactions item)
                    @ [\<lparr>ci_user_id = u, ci_interaction_type = it, ci_timestamp = t2\<rparr>])"
  proof (cases "map_of (content_data s) c")
    case None
    then have "c \<notin> fst ` set (content_data s)" by (simp add: map_of_eq_None_iff)
    with None show "registered s u \<Longrightarrow> ?thesis"
      by (simp add: add_content_interaction_def Let_def map_of_map_entry update_conv')
  next
    case (Some item)
    then have "c \<in> fst ` set (content_data s)"
      by (metis map_of_eq_None_iff option.distinct(1))
    with Some show "registered s u \<Longrightarrow> ?thesis"
      by (simp add: add_content_interaction_def Let_def map_of_map_entry)
  qed
  have d4: "registered s u \<Longrightarrow> graph (snd (add_content_interaction u c ty it md t1 t2 s)) = graph s"
    by (simp add: add_content_interaction_def Let_def)
  show ?thesis using a b c d1 d2 d3 d4 by blast
qed

lemma update_fresh: "k \<notin> fst ` set ys \<Longrightarrow> AList.update k v ys = ys @ [(k, v)]"
  by (induction ys) auto

lemma fold_update_distinct:
  "distinct (map fst (ys @ xs)) \<Longrightarrow> fold (\<lambda>(k, v). AList.update k v) xs ys = ys @ xs"
proof (induction xs arbitrary: ys)
  case Nil
  show ?case by simp
next
  case (Cons x xs)
  obtain k v where x: "x = (k, v)" by (cases x)
  have fresh: "k \<notin> fst ` set ys" using Cons.prems x by auto
  have "distinct (map fst ((ys @ [(k, v)]) @ xs))" using Cons.prems x by simp
  from Cons.IH [OF this] show ?case by (simp add: x update_fresh [OF fresh])
qed

lemma fold_update_empty:
  "distinct (map fst xs) \<Longrightarrow> fold (\<lambda>(k, v). AList.update k v) xs [] = xs"
  using fold_update_distinct [of "[]" xs] by simp

lemma set_add_node: "set (g_nodes (add_node u g)) = insert u (set (g_nodes g))"
  by (auto simp: add_node_def)

lemma edges_add_node: "g_edges (add_node u g) = g_edges g"
  by (simp add: add_node_def)


text \<open>
  Claim C10. After \<^verbatim>\<open>add_user(id, age, attrs)\<close> the profile stored under the id is the
  fresh default profile (empty log, empty connection list, cached score 0, the given age)
  with every key of \<open>attrs\<close> written over it, so \<open>attrs\<close> can replace the age or the cached
  score; it does not depend on a profile stored before, whose log and connection list are
  lost. The edges of the graph stay as they are, and the other profiles too.
\<close>

theorem add_user_replaces_profile:
  fixes s :: analyzer and u :: uid and a :: int and pdata :: "profile_data option" and now :: time
  defines "s' \<equiv> add_user u a pdata now s"
  shows "(pdata = None \<longrightarrow> map_of (user_profiles s') u = Some (new_profile u a now))
   \<and> (\<forall>d. pdata = Some d \<longrightarrow>
        (\<exists>p. map_of (user_profiles s') u = Some p
           \<and> p_user_id p = get_or (pd_user_id d) u
           \<and> p_age p = get_or (pd_age d) a
           \<and> p_registration_date p = get_or (pd_registration_date d) now
           \<and> p_suspicious_score p = get_or (pd_suspicious_score d) 0
           \<and> p_content_consumed p = get_or (pd_content_consumed d) []
           \<and> p_connections p = get_or (pd_connections d) []
           \<and> (distinct (map fst (pd_extra d)) \<longrightarrow> p_extra p = pd_extra d)))
   \<and> new_profile u a now = \<lparr>p_user_id = u, p_age = a, p_registration_date = now,
        p_suspicious_score = 0, p_content_consumed = [], p_connections = [], p_extra = []\<rparr>
   \<and> (\<forall>v. v \<noteq> u \<longrightarrow> map_of (user_profiles s') v = map_of (user_profiles s) v)
   \<and> g_edges (graph s') = g_edges (graph s)
   \<and> set (g_nodes (graph s')) = insert u (set (g_nodes (graph s)))
   \<and> content_data s' = content_data s"
proof -
  have a: "pdata = None \<longrightarrow> map_of (user_profiles s') u = Some (new_profile u a now)"
    by (simp add: s'_def add_user_def Let_def update_conv')
  have b: "\<forall>d. pdata = Some d \<longrightarrow>
        (\<exists>p. map_of (user_profiles s') u = Some p
           \<and> p_user_id p = get_or (pd_user_id d) u
           \<and> p_age p = get_or (pd_age d) a
           \<and> p_registration_date p = get_or (pd_registration_date d) now
           \<and> p_suspicious_score p = get_or (pd_suspicious_score d) 0
           \<and> p_content_consumed p = get_or (pd_content_consumed d) []
           \<and> p_connections p = get_or (pd_connections d) []
           \<and> (distinct (map fst (pd_extra d)) \<longrightarrow> p_extra p = pd_extra d))"
    by (simp add: s'_def add_user_def update_conv' dict_update_def new_profile_def
        fold_update_empty)
  have c: "\<forall>v. v \<noteq> u \<longrightarrow> map_of (user_profiles s') v = map_of (user_profiles s) v"
    by (simp add: s'_def add_user_def Let_def update_conv')
  have d: "g_edges (graph s') = g_edges (graph s)"
    by (simp add: s'_def add_user_def Let_def edges_add_node)
  have e: "set (g_nodes (graph s')) = insert u (set (g_nodes (graph s)))"
    by (simp add: s'_def add_user_def Let_def set_add_node)
  have f: "content_data s' = content_data s"
    by (simp add: s'_def add_user_def Let_def)
  show ?thesis using a b c d e f by (simp add: new_profile_def)
qed

subsection \<open>Risk report\<close>

lemma sorted_sorted_reverse:
  "sorted_wrt (\<lambda>a b. key a \<ge> key b) (sorted_reverse key xs)"
proof -
  have "sorted (map key (sort_key key (rev xs)))"
    by (rule sorted_sort_key)
  then have "sorted_wrt (\<lambda>a b. key a \<le> key b) (sort_key key (rev xs))"
    by (simp add: sorted_map)
  then show ?thesis
    by (simp add: sorted_reverse_def sorted_wrt_rev)
qed

lemma stable_sorted_reverse:
  "filter (\<lambda>r. key r = k) (sorted_reverse key xs) = filter (\<lambda>r. key r = k) xs"
  by (simp add: sorted_reverse_def rev_filter [symmetric] sort_key_stable)

lemma length_sorted_reverse: "length (sorted_reverse key xs) = length xs"
  by (simp add: sorted_reverse_def)

lemma length_influential: "length (influential cm xs) \<le> 10"
proof -
  have "length (influential cm xs) \<le> length (take 10 xs)"
    unfolding influential_def List.map_filter_def length_map by (rule length_filter_le)
  also have "\<dots> \<le> 10" by simp
  finally show ?thesis .
qed

lemma report_fields:
  assumes "fst (generate_risk_report nx now s) = Inr rep"
  shows "rp_suspicious_users rep = take 20 (fst (detect_suspicious_content_patterns s))"
    and "suspicious_users_count (rp_summary rep) = length (fst (detect_suspicious_content_patterns s))"
    and "high_risk_users (rp_summary rep)
          = length (filter (\<lambda>u. suspicion_score u > 7/10) (fst (detect_suspicious_content_patterns s)))"
    and "length (influential_suspicious rep) \<le> 10"
  using assms length_influential
  by (auto simp: generate_risk_report_def Let_def split: sum.splits)

lemma sorted_wrt_take: "sorted_wrt P xs \<Longrightarrow> sorted_wrt P (take n xs)"
  by (induction xs arbitrary: n) (auto simp: take_Cons split: nat.splits dest: in_set_takeD)

text \<open>
  Claim C5. In a generated report the list of suspicious users is the first 20 entries of
  the ranked list of the detection; the ranked list is in descending order of
  suspicion\_score, and for each score it holds the records with that score in the order
  in which the loop over the user dictionary found them. At most 10 influential suspicious
  users are listed. The summary's suspicious\_users\_count is the length of the whole
  ranked list, and its high\_risk\_users is the number of records of the whole ranked list
  with a score above 0.7.
\<close>

theorem risk_report_ranking:
  fixes s :: analyzer and nx :: centrality_functions and now :: time and rep :: report
  defines "ranked \<equiv> fst (detect_suspicious_content_patterns s)"
    and "found \<equiv> List.map_filter (\<lambda>e. score_user (fst e) (snd e)) (user_profiles s)"
  assumes generated: "fst (generate_risk_report nx now s) = Inr rep"
  shows "sorted_wrt (\<lambda>a b. suspicion_score a \<ge> suspicion_score b) ranked
    \<and> (\<forall>k. filter (\<lambda>r. suspicion_score r = k) ranked = filter (\<lambda>r. suspicion_score r = k) found)
    \<and> rp_suspicious_users rep = take 20 ranked
    \<and> sorted_wrt (\<lambda>a b. suspicion_score a \<ge> suspicion_score b) (rp_suspicious_users rep)
    \<and> length (rp_suspicious_users rep) \<le> 20
    \<and> length (influential_suspicious rep) \<le> 10
    \<and> suspicious_users_count (rp_summary rep) = length ranked
    \<and> length ranked = length found
    \<and> high_risk_users (rp_summary rep)
        = length (filter (\<lambda>r. suspicion_score r > 7/10) ranked)"
proof -
  have r: "ranked = sorted_reverse suspicion_score found"
    by (simp add: ranked_def found_def detect_suspicious_content_patterns_def detect_loop_fst)
  have a: "sorted_wrt (\<lambda>a b. suspicion_score a \<ge> suspicion_score b) ranked"
    unfolding r by (rule sorted_sorted_reverse)
  have b: "\<forall>k. filter (\<lambda>r. suspicion_score r = k) ranked = filter (\<lambda>r. suspicion_score r = k) found"
    unfolding r by (simp add: stable_sorted_reverse)
  have c: "rp_suspicious_users rep = take 20 ranked"
    unfolding ranked_def by (rule report_fields(1) [OF generated])
  have d: "sorted_wrt (\<lambda>a b. suspicion_score a \<ge> suspicion_score b) (rp_suspicious_users rep)"
    unfolding c by (rule sorted_wrt_take [OF a])
  have e: "length (rp_suspicious_users rep) \<le> 20"
    unfolding c by simp
  have f: "length (influential_suspicious rep) \<le> 10"
    by (rule report_fields(4) [OF generated])
  have g: "suspicious_users_count (rp_summary rep) = length ranked"
    unfolding ranked_def by (rule report_fields(2) [OF generated])
  have h: "length ranked = length found"
    unfolding r by (rule length_sorted_reverse)
  have i: "high_risk_users (rp_summary rep)
        = length (filter (\<lambda>r. suspicion_score r > 7/10) ranked)"
    unfolding ranked_def by (rule report_fields(3) [OF generated])
  show ?thesis using a b c d e f g h i by blast
qed

subsection \<open>Behaviour patterns\<close>

lemma tally_count_tally: "tally_count (tally k d) k' = tally_count d k' + (if k = k' then 1 else 0)"
  by (simp add: tally_count_def tally_def update_conv' get_or_def)

lemma pattern_step_fields:
  "total_risk_score (pattern_step contents i acc)
     = total_risk_score acc
       + (case map_of contents (i_content_id i) of None \<Rightarrow> 0
          | Some item \<Rightarrow> risk_score (classify_content_risk (c_metadata item)))"
  "acc_content_types (pattern_step contents i acc) = tally (i_content_type i) (acc_content_types acc)"
  "acc_interaction_types (pattern_step contents i acc)
     = tally (i_interaction_type i) (acc_interaction_types acc)"
  by (simp_all add: pattern_step_def Let_def split: option.split)

lemma resolvable_scores_Cons:
  "resolvable_scores contents (i # consumed)
     = (case map_of contents (i_content_id i) of None \<Rightarrow> []
        | Some item \<Rightarrow> [risk_score (classify_content_risk (c_metadata item))])
       @ resolvable_scores contents consumed"
  by (simp add: resolvable_scores_def)

lemma resolvable_scores_Nil: "resolvable_scores contents [] = []"
  by (simp add: resolvable_scores_def)

lemma fold_pattern_step:
  "total_risk_score (fold (pattern_step contents) consumed acc)
     = total_risk_score acc + sum_list (resolvable_scores contents consumed)
   \<and> tally_count (acc_content_types (fold (pattern_step contents) consumed acc)) t
     = tally_count (acc_content_types acc) t + length (filter (\<lambda>i. i_content_type i = t) consumed)
   \<and> tally_count (acc_interaction_types (fold (pattern_step contents) consumed acc)) k
     = tally_count (acc_interaction_types acc) k
       + length (filter (\<lambda>i. i_interaction_type i = k) consumed)"
proof (induction consumed arbitrary: acc)
  case Nil
  show ?case by (simp add: resolvable_scores_Nil)
next
  case (Cons i consumed)
  show ?case
    using Cons.IH [of "pattern_step contents i acc"]
    by (simp add: pattern_step_fields resolvable_scores_Cons tally_count_tally
        split: option.split)
qed

lemma analyze_profile_fields:
  "avg_risk_score (analyze_profile contents u p)
     = sum_list (resolvable_scores contents (p_content_consumed p))
         / of_nat (length (p_content_consumed p))"
  "tally_count (content_types (analyze_profile contents u p)) t
     = length (filter (\<lambda>i. i_content_type i = t) (p_content_consumed p))"
  "tally_count (interaction_types (analyze_profile contents u p)) k
     = length (filter (\<lambda>i. i_interaction_type i = k) (p_content_consumed p))"
  using fold_pattern_step [of contents "p_content_consumed p" pattern_acc0 t k]
  by (simp_all add: analyze_profile_def Let_def pattern_acc0_def tally_count_def get_or_def)

lemma resolvable_all:
  "\<forall>i \<in> set consumed. map_of contents (i_content_id i) \<noteq> None
     \<Longrightarrow> length (resolvable_scores contents consumed) = length consumed"
  by (induction consumed) (auto simp: resolvable_scores_Nil resolvable_scores_Cons)

lemma map_of_map_entry_value:
  "map_of (map (\<lambda>e. (fst e, f (fst e) (snd e))) xs) u = map_option (f u) (map_of xs u)"
  by (induction xs) auto

lemma map_of_patterns:
  assumes "distinct (map fst profiles)" "(u, p) \<in> set profiles" "p_content_consumed p \<noteq> []"
  shows "map_of (analyze_user_content_patterns profiles contents) u
           = Some (analyze_profile contents u p)"
proof -
  let ?keep = "\<lambda>entry. length (p_content_consumed (snd entry)) \<noteq> 0"
  have d: "distinct (map fst (filter ?keep profiles))"
    using assms(1) by (rule distinct_map_filter)
  have m: "(u, p) \<in> set (filter ?keep profiles)"
    using assms(2,3) by simp
  have "map_of (filter ?keep profiles) u = Some p"
    using d m by (rule map_of_is_SomeI)
  then show ?thesis
    unfolding analyze_user_content_patterns_def map_of_map_entry_value by simp
qed

text \<open>
  Claim C2, as amended. For a user with at least one interaction, avg\_risk\_score is the sum
  of the classifier's risk scores over the resolvable interactions (those whose content id
  is a key of the catalogue) divided by the number of all interactions of the user: an
  interaction whose content is missing adds nothing to the sum and still counts in the
  divisor. Every interaction, resolvable or not, is counted in the histogram of content
  types and in the histogram of interaction kinds. When every interaction is resolvable,
  avg\_risk\_score is the mean over the resolvable interactions.
\<close>

theorem avg_risk_score_over_all_interactions:
  assumes "distinct (map fst profiles)" and "(u, p) \<in> set profiles"
    and "p_content_consumed p \<noteq> []"
  shows "\<exists>pa. map_of (analyze_user_content_patterns profiles contents) u = Some pa
     \<and> avg_risk_score pa
         = sum_list (resolvable_scores contents (p_content_consumed p))
             / of_nat (length (p_content_consumed p))
     \<and> (\<forall>t. tally_count (content_types pa) t
             = length (filter (\<lambda>i. i_content_type i = t) (p_content_consumed p)))
     \<and> (\<forall>k. tally_count (interaction_types pa) k
             = length (filter (\<lambda>i. i_interaction_type i = k) (p_content_consumed p)))
     \<and> ((\<forall>i \<in> set (p_content_consumed p). map_of contents (i_content_id i) \<noteq> None)
          \<longrightarrow> avg_risk_score pa = spec_average_risk_score contents (p_content_consumed p))"
proof (intro exI conjI allI impI)
  show "map_of (analyze_user_content_patterns profiles contents) u
      = Some (analyze_profile contents u p)"
    using assms by (rule map_of_patterns)
next
  show "avg_risk_score (analyze_profile contents u p)
      = sum_list (resolvable_scores contents (p_content_consumed p))
          / of_nat (length (p_content_consumed p))"
    by (rule analyze_profile_fields)
next
  fix t
  show "tally_count (content_types (analyze_profile contents u p)) t
      = length (filter (\<lambda>i. i_content_type i = t) (p_content_consumed p))"
    by (rule analyze_profile_fields)
next
  fix k
  show "tally_count (interaction_types (analyze_profile contents u p)) k
      = length (filter (\<lambda>i. i_interaction_type i = k) (p_content_consumed p))"
    by (rule analyze_profile_fields)
next
  assume "\<forall>i \<in> set (p_content_consumed p). map_of contents (i_content_id i) \<noteq> None"
  then have "length (resolvable_scores contents (p_content_consumed p))
      = length (p_content_consumed p)"
    by (rule resolvable_all)
  then show "avg_risk_score (analyze_profile contents u p)
      = spec_average_risk_score contents (p_content_consumed p)"
    by (simp add: analyze_profile_fields spec_average_risk_score_def)
qed

section \<open>Instances on the example store\<close>

theorem classify_content_risk_range_and_levels_witness:
  "risk_score (classify_content_risk (empty_metadata\<lparr>category := Some (ascii ''Kids'')\<rparr>)) = 2/10
   \<and> risk_level (classify_content_risk (empty_metadata\<lparr>category := Some (ascii ''Kids'')\<rparr>)) = BAIXO"
proof -
  have s: "risk_score (classify_content_risk (empty_metadata\<lparr>category := Some (ascii ''Kids'')\<rparr>)) = 2/10"
    by code_simp
  with classify_content_risk_range_and_levels [of "empty_metadata\<lparr>category := Some (ascii ''Kids'')\<rparr>"]
  show ?thesis by simp
qed

theorem suspicion_monotone_in_child_count_witness:
  "(6::nat) \<le> 8 \<and> content_ratio 6 10 \<le> content_ratio 8 10
     \<and> score_of_ratio (content_ratio 6 10) \<le> score_of_ratio (content_ratio 8 10)"
  using suspicion_monotone_in_child_count [of 6 8 10] by simp

theorem detect_idempotent_witness:
  "detect_suspicious_content_patterns (snd (detect_suspicious_content_patterns demo_store))
     = detect_suspicious_content_patterns demo_store"
  using detect_idempotent [of demo_store] by simp




theorem ingestion_unknown_user_witness:
  "\<not> registered demo_store ''Z''
   \<and> add_connection ''A'' ''Z'' ''friend'' 1 3 demo_store = demo_store
   \<and> fst (add_content_interaction ''Z'' ''k1'' ''kids_video'' ''view'' None 4 5 demo_store) = False
   \<and> snd (add_content_interaction ''Z'' ''k1'' ''kids_video'' ''view'' None 4 5 demo_store)
       = demo_store"
proof -
  have z: "\<not> registered demo_store ''Z''"
    by (simp add: registered_def demo_store_def)
  note t = ingestion_unknown_user [where s = demo_store and u = "''Z''" and ?u1.0 = "''A''"
        and ?u2.0 = "''Z''" and ct = "''friend''" and w = 1 and now = 3
        and c = "''k1''" and ty = "''kids_video''" and it = "''view''"
        and md = None and ?t1.0 = 4 and ?t2.0 = 5]
  from t z have a: "add_connection ''A'' ''Z'' ''friend'' 1 3 demo_store = demo_store"
    by blast
  from t z have b: "fst (add_content_interaction ''Z'' ''k1'' ''kids_video'' ''view'' None 4 5 demo_store) = False"
    by blast
  from t z have c: "snd (add_content_interaction ''Z'' ''k1'' ''kids_video'' ''view'' None 4 5 demo_store) = demo_store"
    by blast
  from z a b c show ?thesis by blast
qed

theorem add_user_replaces_profile_witness:
  "\<exists>p. map_of (user_profiles (add_user ''A'' 45
            (Some \<lparr>pd_user_id = None, pd_age = Some 17, pd_registration_date = None,
                   pd_suspicious_score = Some (9/10), pd_content_consumed = None,
                   pd_connections = None, pd_extra = [(''name'', Str (ascii ''Joao''))]\<rparr>)
            7 demo_store)) ''A'' = Some p
       \<and> p_age p = 17 \<and> p_suspicious_score p = 9/10
       \<and> p_content_consumed p = [] \<and> p_connections p = []
       \<and> p_extra p = [(''name'', Str (ascii ''Joao''))]"
proof -
  let ?d = "\<lparr>pd_user_id = None, pd_age = Some 17,
      pd_registration_date = None, pd_suspicious_score = Some (9/10),
      pd_content_consumed = None, pd_connections = None,
      pd_extra = [(''name'', Str (ascii ''Joao''))]\<rparr>"
  from add_user_replaces_profile [of "Some ?d" "''A''" 45 7 demo_store]
  have "\<exists>p. map_of (user_profiles (add_user ''A'' 45 (Some ?d) 7 demo_store)) ''A'' = Some p
           \<and> p_user_id p = get_or (pd_user_id ?d) ''A''
           \<and> p_age p = get_or (pd_age ?d) 45
           \<and> p_registration_date p = get_or (pd_registration_date ?d) 7
           \<and> p_suspicious_score p = get_or (pd_suspicious_score ?d) 0
           \<and> p_content_consumed p = get_or (pd_content_consumed ?d) []
           \<and> p_connections p = get_or (pd_connections ?d) []
           \<and> (distinct (map fst (pd_extra ?d)) \<longrightarrow> p_extra p = pd_extra ?d)"
    by blast
  then obtain p where p: "map_of (user_profiles (add_user ''A'' 45 (Some ?d) 7 demo_store)) ''A'' = Some p"
    "p_age p = get_or (pd_age ?d) 45"
    "p_suspicious_score p = get_or (pd_suspicious_score ?d) 0"
    "p_content_consumed p = get_or (pd_content_consumed ?d) []"
    "p_connections p = get_or (pd_connections ?d) []"
    "distinct (map fst (pd_extra ?d)) \<longrightarrow> p_extra p = pd_extra ?d"
    by blast
  show ?thesis
    by (rule exI [of _ p]) (use p in \<open>simp add: get_or_def\<close>)
qed

theorem risk_report_ranking_witness:
  "\<exists>rep. fst (generate_risk_report demo_centrality 0 demo_store) = Inr rep
     \<and> map sr_user_id (rp_suspicious_users rep) = [''A'', ''B'', ''C'']
     \<and> map suspicion_score (rp_suspicious_users rep) = [1, 1, 6/10]
     \<and> suspicious_users_count (rp_summary rep) = 3
     \<and> high_risk_users (rp_summary rep) = 2"
proof -
  have "\<not> isl (fst (generate_risk_report demo_centrality 0 demo_store))"
    by code_simp
  then obtain rep where rep: "fst (generate_risk_report demo_centrality 0 demo_store) = Inr rep"
    by (cases "fst (generate_risk_report demo_centrality 0 demo_store)") simp_all
  have ids: "map sr_user_id (take 20 (fst (detect_suspicious_content_patterns demo_store)))
      = [''A'', ''B'', ''C'']"
    by code_simp
  have scores: "map suspicion_score (take 20 (fst (detect_suspicious_content_patterns demo_store)))
      = [1, 1, 6/10]"
    by code_simp
  have len: "length (fst (detect_suspicious_content_patterns demo_store)) = 3"
    by code_simp
  have high: "length (filter (\<lambda>r. suspicion_score r > 7/10)
      (fst (detect_suspicious_content_patterns demo_store))) = 2"
    by code_simp
  from risk_report_ranking [OF rep] ids scores len high
  have "map sr_user_id (rp_suspicious_users rep) = [''A'', ''B'', ''C'']
     \<and> map suspicion_score (rp_suspicious_users rep) = [1, 1, 6/10]
     \<and> suspicious_users_count (rp_summary rep) = 3
     \<and> high_risk_users (rp_summary rep) = 2"
    by simp
  with rep show ?thesis by (intro exI [of _ rep]) simp
qed

theorem avg_risk_score_counterexample:
  "avg_risk_score (analyze_profile demo_contents ''R'' demo_reader)
     \<noteq> spec_average_risk_score demo_contents (p_content_consumed demo_reader)
   \<and> avg_risk_score (analyze_profile demo_contents ''R'' demo_reader) = 4/10
   \<and> spec_average_risk_score demo_contents (p_content_consumed demo_reader) = 8/10
   \<and> map_of (analyze_user_content_patterns [(''R'', demo_reader)] demo_contents) ''R''
       = Some (analyze_profile demo_contents ''R'' demo_reader)
   \<and> tally_count (content_types (analyze_profile demo_contents ''R'' demo_reader)) ''news'' = 1"
  by code_simp

theorem avg_risk_score_over_all_interactions_witness:
  "\<exists>pa. map_of (analyze_user_content_patterns [(''R'', demo_reader)] demo_contents) ''R'' = Some pa
     \<and> avg_risk_score pa = (8/10) / 2
     \<and> tally_count (interaction_types pa) ''share'' = 1"
proof -
  have a: "distinct (map fst [(''R'', demo_reader)])" by simp
  have b: "(''R'', demo_reader) \<in> set [(''R'', demo_reader)]" by simp
  have c: "p_content_consumed demo_reader \<noteq> []" by (simp add: demo_reader_def)
  have s: "sum_list (resolvable_scores demo_contents (p_content_consumed demo_reader)) = 8/10"
    by code_simp
  have n: "length (p_content_consumed demo_reader) = 2"
    by (simp add: demo_reader_def)
  have k: "length (filter (\<lambda>i. i_interaction_type i = ''share'') (p_content_consumed demo_reader)) = 1"
    by (simp add: demo_reader_def)
  from avg_risk_score_over_all_interactions [OF a b c, of demo_contents]
  obtain pa where pa: "map_of (analyze_user_content_patterns [(''R'', demo_reader)] demo_contents) ''R'' = Some pa"
    "avg_risk_score pa = sum_list (resolvable_scores demo_contents (p_content_consumed demo_reader))
             / of_nat (length (p_content_consumed demo_reader))"
    "\<forall>k. tally_count (interaction_types pa) k
             = length (filter (\<lambda>i. i_interaction_type i = k) (p_content_consumed demo_reader))"
    by blast
  show ?thesis
    by (rule exI [of _ pa]) (use pa s n k in simp)
qed

end
